theory Spec2Isabelle
  imports Main
begin

section \<open>Data model\<close>

text \<open>
  The embedding follows \<^verbatim>\<open>src/src/compilerinstance.cpp\<close>. The header
  \<^verbatim>\<open>compilerinstance.h\<close> (the enumerations, the settings structure, the status
  class and the callback type) is not part of the sources; the declarations taken from it
  are marked below.
\<close>

text \<open>
  Modelled from the spec: the enumeration \<^verbatim>\<open>Language\<close> is declared in the missing
  header. The spec names the two languages C and C++. The source tests
  \<^verbatim>\<open>language != C && language != CXX\<close>, so a value of the enumeration type that is
  neither enumerator can reach the function; \<open>UnlistedLanguage n\<close> stands for it.
\<close>

datatype Language = C | CXX | UnlistedLanguage nat

text \<open>
  Modelled from the spec: the status codes of \<^verbatim>\<open>CompilerInstance::StatusCode\<close>, as
  the spec lists them.
\<close>

datatype StatusCode =
    Ok
  | MemoryAllocationFailure
  | InvalidLanguage
  | InvalidLanguageStandard
  | CompilationError
  | CompilationWarning

record Status =
  succeeded :: bool
  code :: StatusCode
  message :: string

text \<open>
  Modelled from the spec: the constructor of \<^verbatim>\<open>CompilerInstance::Status\<close> is declared
  in the missing header. The source calls it with one, two or three arguments; by the spec
  an omitted code is \<open>Ok\<close> and an omitted message is empty.
\<close>

definition Status3 :: "bool \<Rightarrow> StatusCode \<Rightarrow> string \<Rightarrow> Status" where
  "Status3 s c m = \<lparr>succeeded = s, code = c, message = m\<rparr>"

definition Status2 :: "bool \<Rightarrow> StatusCode \<Rightarrow> Status" where
  "Status2 s c = Status3 s c []"

definition Status1 :: "bool \<Rightarrow> Status" where
  "Status1 s = Status2 s Ok"

text \<open>
  Modelled from the spec: the kinds of \<^verbatim>\<open>CompilerInstance::ASTCallbackType\<close>. The
  source uses \<open>Function\<close> only; the spec calls the enumeration extensible, and
  \<open>UnlistedKind n\<close> stands for any further enumerator.
\<close>

datatype ASTCallbackType = Function | UnlistedKind nat

text \<open>The settings structure, with the fields the source reads.\<close>

record Profile =
  root_path :: string
  resource_dir :: string
  internal_isystem :: "Language \<rightharpoonup> string list"
  internal_externc_isystem :: "Language \<rightharpoonup> string list"

record CompilerInstanceSettings =
  language :: Language
  language_standard :: int
  enable_gnu_extensions :: bool
  profile :: Profile
  additional_include_folders :: "string list"

subsection \<open>The objects of the front-end library that the source touches\<close>

text \<open>
  A declaration node of the syntax tree: an identity, whether the node is a function
  declaration (the only kind the visitor overrides), and the nodes below it in the order
  the walk reaches them.
\<close>

datatype Decl = Decl (decl_id: nat) (isFunctionDecl: bool) (decls: "Decl list")

record ASTContext =
  getTranslationUnitDecl :: Decl

text \<open>
  The source manager: the buffers registered as files (name and contents) and the index
  of the main file.
\<close>

record SourceManager =
  file_entries :: "(string \<times> string) list"
  main_file_id :: "nat option"

text \<open>An untyped pointer is an address; \<open>0\<close> is the null pointer.\<close>

type_synonym voidptr = nat

text \<open>
  A user callback is a function pointer: null, or code that receives the four arguments
  and acts on the state of the user's program \<open>'w\<close> (what the opaque parameter points
  to, and anything else the callback can reach). The facade's own data is not part of
  \<open>'w\<close>: callbacks that call back into the facade are outside the model.
\<close>

datatype 'w ASTCallback =
    NullCallback
  | Callback "Decl \<Rightarrow> ASTContext \<Rightarrow> SourceManager \<Rightarrow> voidptr \<Rightarrow> 'w \<Rightarrow> bool \<times> 'w"

type_synonym 'w ASTCallbackMap = "ASTCallbackType \<rightharpoonup> 'w ASTCallback"

section \<open>The dispatch layer\<close>

text \<open>
  The visitor holds a reference to the facade's callback table. The table is therefore
  not copied into the visitor: it is part of the state the dispatch functions run on, next
  to the user's state, and every function returns the state it leaves behind.
\<close>

type_synonym 'w dispatch_state = "'w ASTCallbackMap \<times> 'w"

record ASTVisitor =
  ast_context :: ASTContext
  source_manager :: SourceManager
  visitor_callback_parameter :: voidptr

text \<open>
  \<^verbatim>\<open>dispatchEvent\<close>: \<^verbatim>\<open>find\<close> reads the table and does not insert; an absent
  key and a null callback both return true without a call.
\<close>

definition dispatchEvent ::
  "ASTVisitor \<Rightarrow> ASTCallbackType \<Rightarrow> Decl \<Rightarrow> 'w dispatch_state \<Rightarrow> bool \<times> 'w dispatch_state" where
  "dispatchEvent v type declaration st =
     (case st of (ast_callback_map, w) \<Rightarrow>
        (case ast_callback_map type of
           None \<Rightarrow> (True, (ast_callback_map, w))
         | Some callback \<Rightarrow>
             (case callback of
                NullCallback \<Rightarrow> (True, (ast_callback_map, w))
              | Callback f \<Rightarrow>
                  (case f declaration (ast_context v) (source_manager v)
                          (visitor_callback_parameter v) w of
                     (r, w') \<Rightarrow> (r, (ast_callback_map, w'))))))"

definition VisitFunctionDecl ::
  "ASTVisitor \<Rightarrow> Decl \<Rightarrow> 'w dispatch_state \<Rightarrow> bool \<times> 'w dispatch_state" where
  "VisitFunctionDecl v declaration st = dispatchEvent v Function declaration st"

text \<open>
  Modelled from the spec: the traversal driver is the front-end library's recursive
  visitor, which is not part of the sources. By the spec it is a pre-order walk over the
  declaration tree: a node is visited before the nodes below it, only function
  declarations are dispatched, and a visit that returns false ends the walk at once.
\<close>

fun TraverseDecl ::
      "ASTVisitor \<Rightarrow> Decl \<Rightarrow> 'w dispatch_state \<Rightarrow> bool \<times> 'w dispatch_state"
  and TraverseDecls ::
      "ASTVisitor \<Rightarrow> Decl list \<Rightarrow> 'w dispatch_state \<Rightarrow> bool \<times> 'w dispatch_state" where
  "TraverseDecl v (Decl i f ds) st =
     (case (if f then VisitFunctionDecl v (Decl i f ds) st else (True, st)) of
        (r, st') \<Rightarrow> if r then TraverseDecls v ds st' else (False, st'))"
| "TraverseDecls v [] st = (True, st)"
| "TraverseDecls v (d # ds) st =
     (case TraverseDecl v d st of
        (r, st') \<Rightarrow> if r then TraverseDecls v ds st' else (False, st'))"

text \<open>
  The consumer. Its references to the source manager of its session and to the facade's
  table are resolved when it runs: the source manager is the session's at that moment, the
  table is the one in the state. Only the callback parameter is held by value.
\<close>

record ASTConsumer =
  consumer_callback_parameter :: voidptr

definition HandleTranslationUnit ::
  "ASTConsumer \<Rightarrow> SourceManager \<Rightarrow> ASTContext \<Rightarrow> 'w dispatch_state \<Rightarrow> 'w dispatch_state" where
  "HandleTranslationUnit c sm ctx st =
     (let recursive_visitor =
            \<lparr>ast_context = ctx, source_manager = sm,
             visitor_callback_parameter = consumer_callback_parameter c\<rparr>
      in snd (TraverseDecl recursive_visitor (getTranslationUnitDecl ctx) st))"

section \<open>The session builder\<close>

subsection \<open>Options of the front-end library\<close>

datatype IncludeDirGroup = System | ExternCSystem

text \<open>
  An entry of the header search list, as \<^verbatim>\<open>AddPath(path, group, is_framework,
  ignore_sysroot)\<close> records it.
\<close>

datatype HeaderSearchEntry = HeaderSearchEntry string IncludeDirGroup bool bool

record HeaderSearchOptions =
  UseBuiltinIncludes :: bool
  UseStandardSystemIncludes :: bool
  UseStandardCXXIncludes :: bool
  ResourceDir :: string
  UserEntries :: "HeaderSearchEntry list"

definition AddPath ::
  "string \<Rightarrow> IncludeDirGroup \<Rightarrow> bool \<Rightarrow> bool \<Rightarrow> HeaderSearchOptions \<Rightarrow> HeaderSearchOptions" where
  "AddPath path grp is_framework ignore_sysroot h =
     h\<lparr>UserEntries := UserEntries h @ [HeaderSearchEntry path grp is_framework ignore_sysroot]\<rparr>"

record LangOptions =
  CPlusPlus :: bool
  RTTI :: bool
  CXXExceptions :: bool
  GNUMode :: bool
  GNUKeywords :: bool
  Bool :: bool

datatype InputKind = InputKindC | InputKindCxx

datatype LangStandard =
    lang_c89 | lang_c94 | lang_c99 | lang_c11
  | lang_cxx98 | lang_cxx11 | lang_cxx14

record PreprocessorOptions =
  UsePredefines :: bool

text \<open>
  The session object \<^verbatim>\<open>clang::CompilerInstance\<close>, with the parts the source
  configures. The diagnostics engine, the file manager, the preprocessor, the builtin
  table and the syntax-tree context are created by library calls with no argument taken
  from the settings; they have no field here.
\<close>

record ClangCompilerInstance =
  HeaderSearchOpts :: HeaderSearchOptions
  LangOpts :: LangOptions
  PreprocessorOpts :: PreprocessorOptions
  Target :: string
  SourceMgr :: SourceManager
  Consumer :: ASTConsumer

text \<open>What the parse engine leaves behind when it returns.\<close>

record ParseResult =
  parsed_context :: ASTContext
  NumErrors :: nat
  NumWarnings :: nat
  diagnostic_output :: string

text \<open>
  The host and the library, as far as the source depends on them:
  \<^item> whether \<^verbatim>\<open>make_unique\<close> throws \<^verbatim>\<open>bad_alloc\<close>, and the options a
    fresh session object starts with;
  \<^item> \<^verbatim>\<open>operator/\<close> on paths and \<^verbatim>\<open>absolute(path, err)\<close> (\<open>None\<close>: the
    error code is set);
  \<^item> the default target triple;
  \<^item> \<^verbatim>\<open>setLangDefaults\<close>, a library call that receives the language options and
    the preprocessor options of the session by reference and returns nothing: its effect
    is the pair of options it leaves;
  \<^item> the parse engine (\<open>None\<close>: the engine does not return).
\<close>

record Env =
  make_unique_throws :: bool
  new_HeaderSearchOpts :: HeaderSearchOptions
  new_LangOpts :: LangOptions
  new_PreprocessorOpts :: PreprocessorOptions
  path_append :: "string \<Rightarrow> string \<Rightarrow> string"
  absolute :: "string \<Rightarrow> string option"
  getDefaultTargetTriple :: string
  setLangDefaults ::
    "LangOptions \<Rightarrow> InputKind \<Rightarrow> string \<Rightarrow> PreprocessorOptions \<Rightarrow> LangStandard
       \<Rightarrow> LangOptions \<times> PreprocessorOptions"
  ParseAST_engine :: "ClangCompilerInstance \<Rightarrow> ParseResult option"

subsection \<open>\<^verbatim>\<open>createClangCompilerInstance\<close>\<close>

text \<open>The two loops over the profile's path lists (lines 155--160 and 168--173).\<close>

fun add_profile_paths ::
  "Env \<Rightarrow> string \<Rightarrow> IncludeDirGroup \<Rightarrow> string list \<Rightarrow> HeaderSearchOptions \<Rightarrow> HeaderSearchOptions" where
  "add_profile_paths env profile_root grp [] h = h"
| "add_profile_paths env profile_root grp (path # path_list) h =
     add_profile_paths env profile_root grp path_list
       (AddPath (path_append env profile_root path) grp False False h)"

text \<open>The loop over \<^verbatim>\<open>additional_include_folders\<close> (lines 176--185).\<close>

fun add_additional_include_folders ::
  "Env \<Rightarrow> string list \<Rightarrow> HeaderSearchOptions \<Rightarrow> HeaderSearchOptions" where
  "add_additional_include_folders env [] h = h"
| "add_additional_include_folders env (path # paths) h =
     add_additional_include_folders env paths
       (case absolute env path of
          None \<Rightarrow> h
        | Some absolute_path \<Rightarrow> AddPath absolute_path System False False h)"

text \<open>
  Lines 187--248: the language options, the input kind and the language standard, or the
  status of the early return.
\<close>

definition configure_language_options ::
  "CompilerInstanceSettings \<Rightarrow> LangOptions \<Rightarrow> Status + LangOptions \<times> InputKind \<times> LangStandard" where
  "configure_language_options settings language_options =
     (case
        (if language settings = CXX then
           (let lo = language_options\<lparr>CPlusPlus := True, RTTI := True, CXXExceptions := True\<rparr>;
                input_kind = InputKindCxx
            in if language_standard settings = 98 then Inr (lo, input_kind, lang_cxx98)
               else if language_standard settings = 11 then Inr (lo, input_kind, lang_cxx11)
               else if language_standard settings = 14 then Inr (lo, input_kind, lang_cxx14)
               else Inl (Status2 False InvalidLanguageStandard))
         else
           (let lo = language_options\<lparr>CPlusPlus := False, RTTI := False, CXXExceptions := False\<rparr>;
                input_kind = InputKindC
            in if language_standard settings = 89 then Inr (lo, input_kind, lang_c89)
               else if language_standard settings = 94 then Inr (lo, input_kind, lang_c94)
               else if language_standard settings = 99 then Inr (lo, input_kind, lang_c99)
               else if language_standard settings = 11 then Inr (lo, input_kind, lang_c11)
               else Inl (Status2 False InvalidLanguageStandard)))
      of
        Inl status \<Rightarrow> Inl status
      | Inr (lo, input_kind, std) \<Rightarrow>
          Inr (lo\<lparr>GNUMode := enable_gnu_extensions settings, GNUKeywords := True, Bool := True\<rparr>,
               input_kind, std))"

text \<open>Lines 138--185: the header search options, once the language is known to be valid.\<close>

definition configure_header_search ::
  "Env \<Rightarrow> CompilerInstanceSettings \<Rightarrow> HeaderSearchOptions \<Rightarrow> HeaderSearchOptions" where
  "configure_header_search env settings h0 =
     (let h1 = h0\<lparr>UseBuiltinIncludes := False, UseStandardSystemIncludes := False,
                  UseStandardCXXIncludes := False,
                  ResourceDir := resource_dir (profile settings)\<rparr>;
          profile_root = root_path (profile settings);
          h2 = (case internal_isystem (profile settings) (language settings) of
                  None \<Rightarrow> h1
                | Some path_list \<Rightarrow> add_profile_paths env profile_root System path_list h1);
          h3 = (case internal_externc_isystem (profile settings) (language settings) of
                  None \<Rightarrow> h2
                | Some path_list \<Rightarrow> add_profile_paths env profile_root ExternCSystem path_list h2)
      in add_additional_include_folders env (additional_include_folders settings) h3)"

text \<open>
  The function itself. The first argument is the caller's handle, which is reset on
  entry; the result is the status and the handle as the function leaves it (\<open>None\<close>: the
  null pointer). The callback table is bound to the consumer by reference and is not read
  here.
\<close>

definition createClangCompilerInstance ::
  "Env \<Rightarrow> ClangCompilerInstance option \<Rightarrow> CompilerInstanceSettings \<Rightarrow> 'w ASTCallbackMap
     \<Rightarrow> voidptr \<Rightarrow> Status \<times> ClangCompilerInstance option" where
  "createClangCompilerInstance env compiler0 settings ast_callback_map callback_parameter =
     (let compiler = None in
      if make_unique_throws env then (Status2 False MemoryAllocationFailure, compiler)
      else if language settings \<noteq> C \<and> language settings \<noteq> CXX
      then (Status2 False InvalidLanguage, compiler)
      else
        (let header_search_options = configure_header_search env settings (new_HeaderSearchOpts env)
         in case configure_language_options settings (new_LangOpts env) of
              Inl status \<Rightarrow> (status, compiler)
            | Inr (language_options, input_kind, std) \<Rightarrow>
                (case setLangDefaults env language_options input_kind
                        (getDefaultTargetTriple env) (new_PreprocessorOpts env) std of
                   (language_options', preprocessor_options) \<Rightarrow>
                     (Status1 True,
                      Some \<lparr>HeaderSearchOpts = header_search_options,
                            LangOpts = language_options',
                            PreprocessorOpts = preprocessor_options\<lparr>UsePredefines := False\<rparr>,
                            Target = getDefaultTargetTriple env,
                            SourceMgr = \<lparr>file_entries = [], main_file_id = None\<rparr>,
                            Consumer = \<lparr>consumer_callback_parameter = callback_parameter\<rparr>\<rparr>))))"

section \<open>The facade\<close>

record 'w PrivateData =
  compiler_settings :: CompilerInstanceSettings
  ast_callback_map :: "'w ASTCallbackMap"
  callback_parameter :: voidptr

text \<open>The constructor: the settings are copied, the table is empty, the parameter null.\<close>

definition CompilerInstance :: "CompilerInstanceSettings \<Rightarrow> 'w PrivateData" where
  "CompilerInstance settings =
     \<lparr>compiler_settings = settings, ast_callback_map = Map.empty, callback_parameter = 0\<rparr>"

definition registerASTCallback ::
  "'w PrivateData \<Rightarrow> ASTCallbackType \<Rightarrow> 'w ASTCallback \<Rightarrow> 'w PrivateData" where
  "registerASTCallback d type callback =
     d\<lparr>ast_callback_map := (ast_callback_map d)(type \<mapsto> callback)\<rparr>"

definition setASTCallbackParameter :: "'w PrivateData \<Rightarrow> voidptr \<Rightarrow> 'w PrivateData" where
  "setASTCallbackParameter d user_defined = d\<lparr>callback_parameter := user_defined\<rparr>"

text \<open>
  Lines 348--354: the buffer becomes a file named \<^verbatim>\<open>main.cpp\<close> of the session's
  source manager, and that file becomes the main file.
\<close>

definition register_main_buffer :: "ClangCompilerInstance \<Rightarrow> string \<Rightarrow> ClangCompilerInstance" where
  "register_main_buffer compiler buffer =
     (let sm0 = SourceMgr compiler;
          file_id = length (file_entries sm0);
          sm1 = sm0\<lparr>file_entries := file_entries sm0 @ [(''main.cpp'', buffer)]\<rparr>;
          sm2 = sm1\<lparr>main_file_id := Some file_id\<rparr>
      in compiler\<lparr>SourceMgr := sm2\<rparr>)"

text \<open>
  \<^verbatim>\<open>processBuffer\<close>. The result is the status, the facade's data and the user's
  state after the call; \<open>None\<close> means that the call does not return (the parse engine
  does not return, or a null session would be dereferenced). The parse engine hands the
  finished translation unit to the session's consumer before it returns, and the diagnostic
  counts are read afterwards.
\<close>

definition processBuffer ::
  "Env \<Rightarrow> 'w PrivateData \<Rightarrow> string \<Rightarrow> 'w \<Rightarrow> (Status \<times> 'w PrivateData \<times> 'w) option" where
  "processBuffer env d buffer w =
     (case createClangCompilerInstance env None (compiler_settings d) (ast_callback_map d)
             (callback_parameter d) of
        (status, compiler) \<Rightarrow>
          if \<not> succeeded status then Some (status, d, w)
          else
            (case compiler of
               None \<Rightarrow> None
             | Some c0 \<Rightarrow>
                 (let c = register_main_buffer c0 buffer
                  in case ParseAST_engine env c of
                       None \<Rightarrow> None
                     | Some r \<Rightarrow>
                         (case HandleTranslationUnit (Consumer c) (SourceMgr c) (parsed_context r)
                                 (ast_callback_map d, w) of
                            (table, w') \<Rightarrow>
                              (let d' = d\<lparr>ast_callback_map := table\<rparr>
                               in if NumErrors r \<noteq> 0
                                  then Some (Status3 False CompilationError (diagnostic_output r), d', w')
                                  else if NumWarnings r \<noteq> 0
                                  then Some (Status3 True CompilationWarning (diagnostic_output r), d', w')
                                  else Some (Status1 True, d', w'))))))"

section \<open>The spec's table of language standards\<close>

text \<open>
  The table as the spec words it (C: 89, 94, 99, 11; C++: 98, 11, 14), to be compared with
  the two \<^verbatim>\<open>switch\<close> statements of the source.
\<close>

definition spec_standard_table :: "Language \<Rightarrow> int list" where
  "spec_standard_table l =
     (case l of C \<Rightarrow> [89, 94, 99, 11] | CXX \<Rightarrow> [98, 11, 14] | UnlistedLanguage n \<Rightarrow> [])"

section \<open>Concrete inputs\<close>

text \<open>
  A host for the examples. Its \<^verbatim>\<open>setLangDefaults\<close> stands for the front-end
  library's \<^verbatim>\<open>CompilerInvocation::setLangDefaults\<close>, which is not part of the
  sources. For the seven standards the source selects it does to the modelled options what
  the library does: C++ mode and the bool keyword follow the standard, GNU mode is that of
  the standard and GNU keywords follow GNU mode, so both are off, since none of the seven
  is a GNU dialect. RTTI and C++ exceptions are left as they are.
\<close>

definition isCPlusPlus :: "LangStandard \<Rightarrow> bool" where
  "isCPlusPlus std = (std = lang_cxx98 \<or> std = lang_cxx11 \<or> std = lang_cxx14)"

definition library_setLangDefaults ::
  "LangOptions \<Rightarrow> InputKind \<Rightarrow> string \<Rightarrow> PreprocessorOptions \<Rightarrow> LangStandard
     \<Rightarrow> LangOptions \<times> PreprocessorOptions" where
  "library_setLangDefaults opts ik triple ppopts std =
     (opts\<lparr>CPlusPlus := isCPlusPlus std, GNUMode := False,
            GNUKeywords := False, Bool := isCPlusPlus std\<rparr>, ppopts)"

text \<open>
  A parse engine for the examples: one declaration found in \<^verbatim>\<open>int f(void);\<close>, two
  in \<^verbatim>\<open>int f(void); int g(void);\<close>, an error in \<^verbatim>\<open>int f(\<close>, a warning in
  \<^verbatim>\<open>#warning w\<close>, and no return on anything else.
\<close>

definition example_engine :: "ClangCompilerInstance \<Rightarrow> ParseResult option" where
  "example_engine c =
     (case file_entries (SourceMgr c) of
        [(name, buffer)] \<Rightarrow>
          if buffer = ''int f(void);''
          then Some \<lparr>parsed_context = \<lparr>getTranslationUnitDecl = Decl 0 False [Decl 1 True []]\<rparr>,
                     NumErrors = 0, NumWarnings = 0, diagnostic_output = []\<rparr>
          else if buffer = ''int f(void); int g(void);''
          then Some \<lparr>parsed_context =
                       \<lparr>getTranslationUnitDecl = Decl 0 False [Decl 1 True [], Decl 2 True []]\<rparr>,
                     NumErrors = 0, NumWarnings = 0, diagnostic_output = []\<rparr>
          else if buffer = ''int f(''
          then Some \<lparr>parsed_context = \<lparr>getTranslationUnitDecl = Decl 0 False []\<rparr>,
                     NumErrors = 1, NumWarnings = 0,
                     diagnostic_output = ''main.cpp:1:7: error: expected parameter declarator''\<rparr>
          else if buffer = ''#warning w''
          then Some \<lparr>parsed_context = \<lparr>getTranslationUnitDecl = Decl 0 False []\<rparr>,
                     NumErrors = 0, NumWarnings = 1,
                     diagnostic_output = ''main.cpp:1:2: warning: w''\<rparr>
          else None
      | _ \<Rightarrow> None)"

definition example_env :: Env where
  "example_env =
     \<lparr>make_unique_throws = False,
      new_HeaderSearchOpts =
        \<lparr>UseBuiltinIncludes = True, UseStandardSystemIncludes = True,
         UseStandardCXXIncludes = True, ResourceDir = [], UserEntries = []\<rparr>,
      new_LangOpts =
        \<lparr>CPlusPlus = False, RTTI = True, CXXExceptions = False, GNUMode = True,
         GNUKeywords = False, Bool = False\<rparr>,
      new_PreprocessorOpts = \<lparr>UsePredefines = True\<rparr>,
      path_append = (\<lambda>root path. root @ ''/'' @ path),
      absolute = (\<lambda>path. if path = [] then None else Some (''/work/'' @ path)),
      getDefaultTargetTriple = ''x86_64-unknown-linux-gnu'',
      setLangDefaults = library_setLangDefaults,
      ParseAST_engine = example_engine\<rparr>"

text \<open>The same host when the allocation of the session object fails.\<close>

definition example_env_no_memory :: Env where
  "example_env_no_memory = example_env\<lparr>make_unique_throws := True\<rparr>"

definition example_profile :: Profile where
  "example_profile =
     \<lparr>root_path = ''/opt/profile'', resource_dir = ''/opt/profile/clang'',
      internal_isystem = [C \<mapsto> [''usr/include'']],
      internal_externc_isystem = [C \<mapsto> [''usr/local/include'']]\<rparr>"

definition example_settings :: CompilerInstanceSettings where
  "example_settings =
     \<lparr>language = C, language_standard = 99, enable_gnu_extensions = True,
      profile = example_profile, additional_include_folders = [''include'', [], ''third_party'']\<rparr>"

text \<open>
  Two callbacks on a user state that is the list of the declarations seen: one continues
  the walk, one stops it.
\<close>

definition log_and_continue :: "nat list ASTCallback" where
  "log_and_continue = Callback (\<lambda>declaration ctx sm param w. (True, w @ [decl_id declaration]))"

definition log_and_stop :: "nat list ASTCallback" where
  "log_and_stop = Callback (\<lambda>declaration ctx sm param w. (False, w @ [decl_id declaration]))"

definition example_facade :: "nat list PrivateData" where
  "example_facade = registerASTCallback (CompilerInstance example_settings) Function log_and_continue"

definition example_visitor :: ASTVisitor where
  "example_visitor =
     \<lparr>ast_context = \<lparr>getTranslationUnitDecl = Decl 0 False [Decl 1 True [], Decl 2 True []]\<rparr>,
      source_manager = \<lparr>file_entries = [(''main.cpp'', ''int f(void); int g(void);'')],
                        main_file_id = Some 0\<rparr>,
      visitor_callback_parameter = 0\<rparr>"

section \<open>Auxiliary facts\<close>

lemma dispatchEvent_table: "fst (snd (dispatchEvent v k d (m, w))) = m"
  by (simp add: dispatchEvent_def split: option.split ASTCallback.split prod.split)

text \<open>The walk never writes the callback table.\<close>

lemma Traverse_table:
  "fst (snd (TraverseDecl v d (st :: 'w dispatch_state))) = fst st"
  "fst (snd (TraverseDecls v ds (st :: 'w dispatch_state))) = fst st"
proof (induction v d st and v ds st rule: TraverseDecl_TraverseDecls.induct)
  case (1 v i f ds st)
  then show ?case
    by (cases st)
       (auto simp: VisitFunctionDecl_def dispatchEvent_table split: prod.splits if_splits
             dest: arg_cong[where f="\<lambda>x. fst (snd x)"])
next
  case (2 v st)
  then show ?case by simp
next
  case (3 v d ds st)
  then show ?case by (auto split: prod.splits if_splits)
qed

text \<open>The only early return of the language block carries \<open>InvalidLanguageStandard\<close>.\<close>

lemma configure_language_options_Inl:
  "configure_language_options s lo = Inl st \<Longrightarrow> st = Status2 False InvalidLanguageStandard"
  by (auto simp: configure_language_options_def Let_def split: if_splits)

text \<open>The two \<^verbatim>\<open>switch\<close> statements accept exactly the spec's table.\<close>

lemma configure_language_options_valid:
  "language s = C \<or> language s = CXX \<Longrightarrow>
   (\<exists>r. configure_language_options s lo = Inr r) =
     (language_standard s \<in> set (spec_standard_table (language s)))"
  by (auto simp: configure_language_options_def Let_def spec_standard_table_def split: if_splits)

text \<open>The status of session construction, by cases in the order the source tests them.\<close>

lemma create_status_cases:
  "fst (createClangCompilerInstance env h s m p) =
     (if make_unique_throws env then Status2 False MemoryAllocationFailure
      else if language s \<noteq> C \<and> language s \<noteq> CXX then Status2 False InvalidLanguage
      else if language_standard s \<in> set (spec_standard_table (language s)) then Status1 True
      else Status2 False InvalidLanguageStandard)"
  using configure_language_options_valid[of s "new_LangOpts env"]
        configure_language_options_Inl[of s "new_LangOpts env"]
  by (auto simp: createClangCompilerInstance_def Let_def split: sum.splits prod.splits)

lemma create_handle:
  "(snd (createClangCompilerInstance env h s m p) = None) =
     (\<not> succeeded (fst (createClangCompilerInstance env h s m p)))"
  using configure_language_options_Inl[of s "new_LangOpts env"]
  by (auto simp: createClangCompilerInstance_def Let_def Status1_def Status2_def Status3_def
           split: sum.splits prod.splits)

text \<open>Session construction does not consult the parse engine.\<close>

lemma add_profile_paths_engine:
  "add_profile_paths (env\<lparr>ParseAST_engine := e\<rparr>) root grp ps h = add_profile_paths env root grp ps h"
  by (induction ps arbitrary: h) simp_all

lemma add_additional_include_folders_engine:
  "add_additional_include_folders (env\<lparr>ParseAST_engine := e\<rparr>) ps h =
     add_additional_include_folders env ps h"
  by (induction ps arbitrary: h) simp_all

lemma create_engine:
  "createClangCompilerInstance (env\<lparr>ParseAST_engine := e\<rparr>) h s m p =
     createClangCompilerInstance env h s m p"
  by (simp add: createClangCompilerInstance_def configure_header_search_def Let_def
        add_profile_paths_engine add_additional_include_folders_engine
        cong: sum.case_cong option.case_cong prod.case_cong if_cong)

text \<open>What the three loops append to the header search list.\<close>

lemma add_profile_paths_entries:
  "UserEntries (add_profile_paths env root grp ps h) =
     UserEntries h @ map (\<lambda>p. HeaderSearchEntry (path_append env root p) grp False False) ps"
  by (induction ps arbitrary: h) (simp_all add: AddPath_def)

lemma add_additional_include_folders_entries:
  "UserEntries (add_additional_include_folders env ps h) =
     UserEntries h @ map (\<lambda>a. HeaderSearchEntry a System False False)
                         (List.map_filter (absolute env) ps)"
  by (induction ps arbitrary: h) (simp_all add: AddPath_def List.map_filter_simps split: option.split)

lemma create_Some_header_search:
  "createClangCompilerInstance env h s m p = (st, Some c) \<Longrightarrow>
     HeaderSearchOpts c = configure_header_search env s (new_HeaderSearchOpts env)"
  by (auto simp: createClangCompilerInstance_def Let_def split: if_splits sum.splits prod.splits)

text \<open>The example session and the example engine, evaluated.\<close>

lemma example_create:
  "createClangCompilerInstance example_env None (compiler_settings example_facade)
     (ast_callback_map example_facade) (callback_parameter example_facade) =
   (\<lparr>succeeded = True, code = Ok, message = []\<rparr>,
    Some \<lparr>HeaderSearchOpts =
            \<lparr>UseBuiltinIncludes = False, UseStandardSystemIncludes = False,
             UseStandardCXXIncludes = False, ResourceDir = ''/opt/profile/clang'',
             UserEntries =
               [HeaderSearchEntry ''/opt/profile/usr/include'' System False False,
                HeaderSearchEntry ''/opt/profile/usr/local/include'' ExternCSystem False False,
                HeaderSearchEntry ''/work/include'' System False False,
                HeaderSearchEntry ''/work/third_party'' System False False]\<rparr>,
          LangOpts =
            \<lparr>CPlusPlus = False, RTTI = False, CXXExceptions = False, GNUMode = False,
             GNUKeywords = False, Bool = False\<rparr>,
          PreprocessorOpts = \<lparr>UsePredefines = False\<rparr>,
          Target = ''x86_64-unknown-linux-gnu'',
          SourceMgr = \<lparr>file_entries = [], main_file_id = None\<rparr>,
          Consumer = \<lparr>consumer_callback_parameter = 0\<rparr>\<rparr>)"
  by (simp add: createClangCompilerInstance_def example_env_def example_facade_def
        example_settings_def example_profile_def registerASTCallback_def CompilerInstance_def
        configure_language_options_def configure_header_search_def AddPath_def
        library_setLangDefaults_def isCPlusPlus_def Status1_def Status2_def Status3_def Let_def)

lemma example_engine_results:
  "example_engine (register_main_buffer c ''int f('') =
     (if file_entries (SourceMgr c) = []
      then Some \<lparr>parsed_context = \<lparr>getTranslationUnitDecl = Decl 0 False []\<rparr>,
                 NumErrors = 1, NumWarnings = 0,
                 diagnostic_output = ''main.cpp:1:7: error: expected parameter declarator''\<rparr>
      else None)"
  "example_engine (register_main_buffer c ''#warning w'') =
     (if file_entries (SourceMgr c) = []
      then Some \<lparr>parsed_context = \<lparr>getTranslationUnitDecl = Decl 0 False []\<rparr>,
                 NumErrors = 0, NumWarnings = 1,
                 diagnostic_output = ''main.cpp:1:2: warning: w''\<rparr>
      else None)"
  "example_engine (register_main_buffer c ''int f(void);'') =
     (if file_entries (SourceMgr c) = []
      then Some \<lparr>parsed_context = \<lparr>getTranslationUnitDecl = Decl 0 False [Decl 1 True []]\<rparr>,
                 NumErrors = 0, NumWarnings = 0, diagnostic_output = []\<rparr>
      else None)"
  by (simp_all add: example_engine_def register_main_buffer_def Let_def split: list.split)

lemma example_processBuffer:
  "processBuffer example_env example_facade ''int f(void);'' [] =
     Some (\<lparr>succeeded = True, code = Ok, message = []\<rparr>, example_facade, [1])"
proof -
  have e: "ParseAST_engine example_env = example_engine"
    by (simp add: example_env_def)
  have t: "ast_callback_map example_facade = [Function \<mapsto> log_and_continue]"
    by (simp add: example_facade_def registerASTCallback_def CompilerInstance_def)
  have h: "HandleTranslationUnit co sm \<lparr>getTranslationUnitDecl = Decl 0 False [Decl i True []]\<rparr>
             ([Function \<mapsto> log_and_continue], []) = ([Function \<mapsto> log_and_continue], [i])"
    for co sm i
    by (simp add: HandleTranslationUnit_def VisitFunctionDecl_def dispatchEvent_def
          log_and_continue_def Let_def)
  have u: "example_facade\<lparr>ast_callback_map := [Function \<mapsto> log_and_continue]\<rparr> = example_facade"
    by (simp add: example_facade_def registerASTCallback_def CompilerInstance_def)
  show ?thesis
    by (simp add: processBuffer_def example_create [unfolded t] e example_engine_results t h u
          Let_def Status1_def Status2_def Status3_def)
qed

text \<open>What the language block writes when it does not return early.\<close>

lemma configure_language_options_Inr:
  "configure_language_options s lo0 = Inr (lo, ik, std) \<Longrightarrow>
     CPlusPlus lo = (language s = CXX) \<and> RTTI lo = (language s = CXX)
     \<and> CXXExceptions lo = (language s = CXX)
     \<and> GNUKeywords lo \<and> Bool lo \<and> GNUMode lo = enable_gnu_extensions s"
  by (auto simp: configure_language_options_def Let_def split: if_splits)

lemma create_Some_language:
  "createClangCompilerInstance env h s m p = (st, Some c) \<Longrightarrow>
     \<exists>lo ik std. configure_language_options s (new_LangOpts env) = Inr (lo, ik, std)
       \<and> LangOpts c = fst (setLangDefaults env lo ik (getDefaultTargetTriple env)
                             (new_PreprocessorOpts env) std)
       \<and> (language s = C \<or> language s = CXX)"
  by (auto simp: createClangCompilerInstance_def Let_def split: if_splits sum.splits prod.splits)

text \<open>
  The options of a session are what \<^verbatim>\<open>setLangDefaults\<close> leaves of the options the
  language block has written; on a host whose \<^verbatim>\<open>setLangDefaults\<close> keeps the options it
  receives, they are the written ones.
\<close>

lemma session_language_options:
  assumes "createClangCompilerInstance env h settings m p = (st, Some c)"
  shows "\<exists>lo ik std.
           configure_language_options settings (new_LangOpts env) = Inr (lo, ik, std)
         \<and> LangOpts c = fst (setLangDefaults env lo ik (getDefaultTargetTriple env)
                               (new_PreprocessorOpts env) std)
         \<and> CPlusPlus lo = (language settings = CXX)
         \<and> RTTI lo = (language settings = CXX)
         \<and> CXXExceptions lo = (language settings = CXX)
         \<and> GNUKeywords lo \<and> Bool lo
         \<and> GNUMode lo = enable_gnu_extensions settings"
proof -
  from create_Some_language [OF assms] obtain lo ik std where
    1: "configure_language_options settings (new_LangOpts env) = Inr (lo, ik, std)" and
    2: "LangOpts c = fst (setLangDefaults env lo ik (getDefaultTargetTriple env)
                               (new_PreprocessorOpts env) std)"
    by blast
  note 4 = configure_language_options_Inr [OF 1]
  show ?thesis
    by (rule exI [of _ lo], rule exI [of _ ik], rule exI [of _ std]) (simp add: 1 2 4)
qed

lemma language_options_if_call_keeps_them:
  assumes "createClangCompilerInstance env h settings m p = (st, Some c)"
      and "\<And>lo ik triple pp std. fst (setLangDefaults env lo ik triple pp std) = lo"
  shows "CPlusPlus (LangOpts c) = (language settings = CXX)
       \<and> RTTI (LangOpts c) = (language settings = CXX)
       \<and> CXXExceptions (LangOpts c) = (language settings = CXX)
       \<and> GNUKeywords (LangOpts c) \<and> Bool (LangOpts c)
       \<and> GNUMode (LangOpts c) = enable_gnu_extensions settings"
  using session_language_options [OF assms(1)] by (auto simp: assms(2))

text \<open>The header search list, split at the loop over the additional folders.\<close>

lemma configure_header_search_entries:
  "UserEntries (configure_header_search env s h0) =
     UserEntries (configure_header_search env (s\<lparr>additional_include_folders := []\<rparr>) h0)
     @ map (\<lambda>a. HeaderSearchEntry a System False False)
           (List.map_filter (absolute env) (additional_include_folders s))"
  by (simp add: configure_header_search_def Let_def add_additional_include_folders_entries)

section \<open>The dispatch layer: callbacks and the walk\<close>

text \<open>
  C3. For a visited function declaration: when the table has a callback for \<open>Function\<close>,
  the visit is that callback applied to the declaration node, the syntax-tree context, the
  source manager and the callback parameter, and the visit returns the callback's boolean;
  when the table has no entry for \<open>Function\<close>, nothing is called and the visit returns
  true. In the walk, a visit that returns true goes on to the nodes below and after, and a
  visit that returns false ends the walk there.
\<close>

theorem C3_function_dispatch:
  "(m Function = Some (Callback f) \<longrightarrow>
      VisitFunctionDecl v declaration (m, w) =
        (fst (f declaration (ast_context v) (source_manager v) (visitor_callback_parameter v) w),
         (m, snd (f declaration (ast_context v) (source_manager v) (visitor_callback_parameter v) w))))
   \<and> (m Function = None \<longrightarrow> VisitFunctionDecl v declaration (m, w) = (True, (m, w)))
   \<and> TraverseDecl v (Decl i True ds) (m, w) =
       (if fst (VisitFunctionDecl v (Decl i True ds) (m, w))
        then TraverseDecls v ds (snd (VisitFunctionDecl v (Decl i True ds) (m, w)))
        else (False, snd (VisitFunctionDecl v (Decl i True ds) (m, w))))
   \<and> TraverseDecls v (d # ds') (m, w) =
       (if fst (TraverseDecl v d (m, w))
        then TraverseDecls v ds' (snd (TraverseDecl v d (m, w)))
        else (False, snd (TraverseDecl v d (m, w))))"
  by (simp add: VisitFunctionDecl_def dispatchEvent_def split: prod.split)

theorem C3_function_dispatch_witness:
  "[Function \<mapsto> log_and_stop] Function = Some log_and_stop
   \<and> VisitFunctionDecl example_visitor (Decl 1 True []) ([Function \<mapsto> log_and_stop], [])
       = (False, ([Function \<mapsto> log_and_stop], [1]))
   \<and> (Map.empty :: nat list ASTCallbackMap) Function = None
   \<and> VisitFunctionDecl example_visitor (Decl 1 True []) (Map.empty, ([] :: nat list))
       = (True, (Map.empty, []))
   \<and> snd (snd (TraverseDecl example_visitor (getTranslationUnitDecl (ast_context example_visitor))
         ([Function \<mapsto> log_and_stop], []))) = [1]
   \<and> snd (snd (TraverseDecl example_visitor (getTranslationUnitDecl (ast_context example_visitor))
         ([Function \<mapsto> log_and_continue], []))) = [1, 2]"
  using C3_function_dispatch [of "[Function \<mapsto> log_and_stop]"
          "\<lambda>declaration ctx sm param w. (False, w @ [decl_id declaration])"
          example_visitor "Decl 1 True []" "[]" 1 "[]" "Decl 1 True []" "[]"]
        C3_function_dispatch [of "Map.empty :: nat list ASTCallbackMap" undefined
          example_visitor "Decl 1 True []" "[]" 1 "[]" "Decl 1 True []" "[]"]
  by (simp add: log_and_stop_def log_and_continue_def example_visitor_def VisitFunctionDecl_def
        dispatchEvent_def)

text \<open>
  C10. A null callback stored for a kind is treated like an absent entry: dispatch calls
  nothing, leaves the table and the user's state as they are, and returns true, for every
  declaration and every kind, \<open>Function\<close> among them.
\<close>

theorem C10_null_callback:
  "VisitFunctionDecl v declaration ((m(Function \<mapsto> NullCallback)), w)
     = (True, (m(Function \<mapsto> NullCallback), w))
   \<and> dispatchEvent v k declaration ((m(k \<mapsto> NullCallback)), w)
     = (True, (m(k \<mapsto> NullCallback), w))
   \<and> fst (dispatchEvent v k declaration ((m(k \<mapsto> NullCallback)), w))
     = fst (dispatchEvent v k declaration ((m(k := None)), w))
   \<and> snd (snd (dispatchEvent v k declaration ((m(k \<mapsto> NullCallback)), w)))
     = snd (snd (dispatchEvent v k declaration ((m(k := None)), w)))"
  by (simp add: VisitFunctionDecl_def dispatchEvent_def)

theorem C10_null_callback_witness:
  "snd (snd (TraverseDecl example_visitor (getTranslationUnitDecl (ast_context example_visitor))
         ([Function \<mapsto> NullCallback], [] :: nat list))) = []
   \<and> fst (TraverseDecl example_visitor (getTranslationUnitDecl (ast_context example_visitor))
         ([Function \<mapsto> NullCallback], [] :: nat list))"
  using C10_null_callback [of example_visitor "Decl 1 True []" Map.empty "[] :: nat list"]
        C10_null_callback [of example_visitor "Decl 2 True []" Map.empty "[] :: nat list"]
  by (simp add: example_visitor_def)

section \<open>Registration\<close>

text \<open>
  C7. Registering \<open>f\<close> and then \<open>g\<close> for the same kind leaves the table with \<open>g\<close> alone
  for that kind, as if \<open>f\<close> had never been registered; the entries of the other kinds, the
  settings and the callback parameter are as before; dispatch for that kind on the
  resulting table is dispatch to \<open>g\<close>.
\<close>

theorem C7_last_registration_wins:
  "ast_callback_map (registerASTCallback (registerASTCallback d k f) k g) = (ast_callback_map d)(k \<mapsto> g)
   \<and> registerASTCallback (registerASTCallback d k f) k g = registerASTCallback d k g
   \<and> ast_callback_map (registerASTCallback (registerASTCallback d k f) k g) k = Some g
   \<and> (\<forall>k'. k' \<noteq> k \<longrightarrow>
        ast_callback_map (registerASTCallback (registerASTCallback d k f) k g) k' = ast_callback_map d k')
   \<and> compiler_settings (registerASTCallback (registerASTCallback d k f) k g) = compiler_settings d
   \<and> callback_parameter (registerASTCallback (registerASTCallback d k f) k g) = callback_parameter d
   \<and> dispatchEvent v k declaration
        (ast_callback_map (registerASTCallback (registerASTCallback d k f) k g), w)
      = dispatchEvent v k declaration (ast_callback_map (registerASTCallback d k g), w)"
  by (simp add: registerASTCallback_def)

theorem C7_last_registration_wins_witness:
  "UnlistedKind 1 \<noteq> Function
   \<and> ast_callback_map (registerASTCallback (registerASTCallback
        (registerASTCallback (CompilerInstance example_settings) (UnlistedKind 1) log_and_continue)
          Function log_and_continue) Function log_and_stop) (UnlistedKind 1) = Some log_and_continue
   \<and> ast_callback_map (registerASTCallback (registerASTCallback
        (registerASTCallback (CompilerInstance example_settings) (UnlistedKind 1) log_and_continue)
          Function log_and_continue) Function log_and_stop) Function = Some log_and_stop
   \<and> fst (dispatchEvent example_visitor Function (Decl 1 True [])
        (ast_callback_map (registerASTCallback (registerASTCallback
        (registerASTCallback (CompilerInstance example_settings) (UnlistedKind 1) log_and_continue)
          Function log_and_continue) Function log_and_stop), [])) = False"
  using C7_last_registration_wins [of
          "registerASTCallback (CompilerInstance example_settings) (UnlistedKind 1) log_and_continue"
          Function log_and_continue log_and_stop example_visitor "Decl 1 True []" "[]"]
  by (simp add: registerASTCallback_def CompilerInstance_def dispatchEvent_def log_and_stop_def)

section \<open>Session construction\<close>

text \<open>
  C4. Session construction is all or nothing: whatever handle the caller passes in, the
  handle is null after the call exactly when the returned status is unsuccessful. So an
  unsuccessful status never comes with a session, and a session only comes with a
  successful status.
\<close>

theorem C4_all_or_nothing:
  "(snd (createClangCompilerInstance env h s m p) = None) =
     (\<not> succeeded (fst (createClangCompilerInstance env h s m p)))"
  using configure_language_options_Inl[of s "new_LangOpts env"]
  by (auto simp: createClangCompilerInstance_def Let_def Status1_def Status2_def Status3_def
           split: sum.splits prod.splits)

theorem C4_all_or_nothing_witness:
  "snd (createClangCompilerInstance example_env
          (Some \<lparr>HeaderSearchOpts = new_HeaderSearchOpts example_env,
                 LangOpts = new_LangOpts example_env,
                 PreprocessorOpts = new_PreprocessorOpts example_env,
                 Target = [], SourceMgr = \<lparr>file_entries = [], main_file_id = None\<rparr>,
                 Consumer = \<lparr>consumer_callback_parameter = 0\<rparr>\<rparr>)
          (example_settings\<lparr>language_standard := 17\<rparr>)
          (Map.empty :: nat list ASTCallbackMap) 0) = None
   \<and> succeeded (fst (createClangCompilerInstance example_env None example_settings
                        (Map.empty :: nat list ASTCallbackMap) 0))"
  using C4_all_or_nothing [of example_env
          "Some \<lparr>HeaderSearchOpts = new_HeaderSearchOpts example_env,
                 LangOpts = new_LangOpts example_env,
                 PreprocessorOpts = new_PreprocessorOpts example_env,
                 Target = [], SourceMgr = \<lparr>file_entries = [], main_file_id = None\<rparr>,
                 Consumer = \<lparr>consumer_callback_parameter = 0\<rparr>\<rparr>"
          "example_settings\<lparr>language_standard := 17\<rparr>" "Map.empty :: nat list ASTCallbackMap" 0]
        C4_all_or_nothing [of example_env None example_settings "Map.empty :: nat list ASTCallbackMap" 0]
  by (simp add: create_status_cases example_env_def example_settings_def spec_standard_table_def
        Status1_def Status2_def Status3_def)

text \<open>
  C1, as amended. When the allocation of the session object succeeds, construction fails
  with \<open>InvalidLanguage\<close> exactly when the language is neither C nor C++, and for a valid
  language it fails with \<open>InvalidLanguageStandard\<close> exactly when the standard is not in
  the table of that language. For every valid pair of language and standard neither of the
  two codes is returned, and \<open>InvalidLanguage\<close> is only ever returned for a language that
  is neither C nor C++. When the allocation fails the code is \<open>MemoryAllocationFailure\<close>,
  whatever the settings.
\<close>

theorem C1_language_and_standard_codes:
  assumes "st = fst (createClangCompilerInstance env h s m p)"
  shows "(\<not> make_unique_throws env \<longrightarrow>
            ((\<not> succeeded st \<and> code st = InvalidLanguage) = (language s \<noteq> C \<and> language s \<noteq> CXX))
          \<and> ((language s = C \<or> language s = CXX) \<longrightarrow>
               ((\<not> succeeded st \<and> code st = InvalidLanguageStandard) =
                (language_standard s \<notin> set (spec_standard_table (language s))))))
       \<and> ((language s = C \<or> language s = CXX)
            \<and> language_standard s \<in> set (spec_standard_table (language s)) \<longrightarrow>
              code st \<noteq> InvalidLanguage \<and> code st \<noteq> InvalidLanguageStandard)
       \<and> (code st = InvalidLanguage \<longrightarrow> language s \<noteq> C \<and> language s \<noteq> CXX)
       \<and> (make_unique_throws env \<longrightarrow> \<not> succeeded st \<and> code st = MemoryAllocationFailure)"
  unfolding assms create_status_cases
  by (simp add: Status1_def Status2_def Status3_def)

theorem C1_language_and_standard_codes_witness:
  "\<not> make_unique_throws example_env
   \<and> code (fst (createClangCompilerInstance example_env None
              (example_settings\<lparr>language := UnlistedLanguage 7\<rparr>)
              (Map.empty :: nat list ASTCallbackMap) 0)) = InvalidLanguage
   \<and> language (example_settings\<lparr>language := CXX, language_standard := 99\<rparr>) = CXX
   \<and> code (fst (createClangCompilerInstance example_env None
              (example_settings\<lparr>language := CXX, language_standard := 99\<rparr>)
              (Map.empty :: nat list ASTCallbackMap) 0)) = InvalidLanguageStandard
   \<and> language example_settings = C
   \<and> language_standard example_settings \<in> set (spec_standard_table (language example_settings))
   \<and> code (fst (createClangCompilerInstance example_env None example_settings
              (Map.empty :: nat list ASTCallbackMap) 0)) \<noteq> InvalidLanguageStandard
   \<and> make_unique_throws example_env_no_memory
   \<and> code (fst (createClangCompilerInstance example_env_no_memory None example_settings
              (Map.empty :: nat list ASTCallbackMap) 0)) = MemoryAllocationFailure"
  using C1_language_and_standard_codes [OF refl, of example_env None
          "example_settings\<lparr>language := UnlistedLanguage 7\<rparr>" "Map.empty :: nat list ASTCallbackMap" 0]
        C1_language_and_standard_codes [OF refl, of example_env None
          "example_settings\<lparr>language := CXX, language_standard := 99\<rparr>"
          "Map.empty :: nat list ASTCallbackMap" 0]
        C1_language_and_standard_codes [OF refl, of example_env None example_settings
          "Map.empty :: nat list ASTCallbackMap" 0]
        C1_language_and_standard_codes [OF refl, of example_env_no_memory None example_settings
          "Map.empty :: nat list ASTCallbackMap" 0]
  by (simp add: example_env_def example_env_no_memory_def example_settings_def spec_standard_table_def)

text \<open>
  Without the proviso the statement fails: when the allocation of the session object fails,
  a language that is neither C nor C++ is answered with \<open>MemoryAllocationFailure\<close>, since
  the allocation comes first.
\<close>

theorem C1_counterexample:
  "language (example_settings\<lparr>language := UnlistedLanguage 7\<rparr>) \<noteq> C
   \<and> language (example_settings\<lparr>language := UnlistedLanguage 7\<rparr>) \<noteq> CXX
   \<and> code (fst (createClangCompilerInstance example_env_no_memory None
              (example_settings\<lparr>language := UnlistedLanguage 7\<rparr>)
              (Map.empty :: nat list ASTCallbackMap) 0)) \<noteq> InvalidLanguage"
  by (simp add: createClangCompilerInstance_def example_env_no_memory_def example_env_def
        example_settings_def Status2_def Status3_def)

text \<open>
  C8. Every entry of \<^verbatim>\<open>additional_include_folders\<close> whose absolute path resolves
  is registered, in order, as a system include path after the profile's paths, and an entry
  whose resolution fails adds nothing. No entry and no outcome of the resolution changes the
  status: construction returns the same status for any list of folders and any resolver.
\<close>

theorem C8_additional_include_folders:
  "fst (createClangCompilerInstance (env\<lparr>absolute := resolve\<rparr>) h
          (s\<lparr>additional_include_folders := folders\<rparr>) m p)
     = fst (createClangCompilerInstance env h s m p)
   \<and> (createClangCompilerInstance env h s m p = (st, Some c) \<longrightarrow>
        UserEntries (HeaderSearchOpts c) =
          UserEntries (configure_header_search env (s\<lparr>additional_include_folders := []\<rparr>)
                         (new_HeaderSearchOpts env))
          @ map (\<lambda>a. HeaderSearchEntry a System False False)
                (List.map_filter (absolute env) (additional_include_folders s))
        \<and> (\<forall>path a. path \<in> set (additional_include_folders s) \<and> absolute env path = Some a \<longrightarrow>
              HeaderSearchEntry a System False False \<in> set (UserEntries (HeaderSearchOpts c))))"
proof -
  have 1: "fst (createClangCompilerInstance (env\<lparr>absolute := resolve\<rparr>) h
          (s\<lparr>additional_include_folders := folders\<rparr>) m p)
     = fst (createClangCompilerInstance env h s m p)"
    by (simp add: create_status_cases)
  have 2: "UserEntries (HeaderSearchOpts c) =
          UserEntries (configure_header_search env (s\<lparr>additional_include_folders := []\<rparr>)
                         (new_HeaderSearchOpts env))
          @ map (\<lambda>a. HeaderSearchEntry a System False False)
                (List.map_filter (absolute env) (additional_include_folders s))"
    if "createClangCompilerInstance env h s m p = (st, Some c)"
    unfolding create_Some_header_search [OF that]
    by (rule configure_header_search_entries)
  have 3: "HeaderSearchEntry a System False False \<in> set (UserEntries (HeaderSearchOpts c))"
    if "createClangCompilerInstance env h s m p = (st, Some c)"
       "path \<in> set (additional_include_folders s)" "absolute env path = Some a" for path a
  proof -
    have "a \<in> set (List.map_filter (absolute env) (additional_include_folders s))"
      using that(2,3) by (force simp: List.map_filter_def)
    then show ?thesis using 2 [OF that(1)] by simp
  qed
  show ?thesis
    by (intro conjI impI allI, rule 1, rule 2, assumption, elim conjE, rule 3)
qed

theorem C8_additional_include_folders_witness:
  "additional_include_folders example_settings = [''include'', [], ''third_party'']
   \<and> absolute example_env [] = None
   \<and> succeeded (fst (createClangCompilerInstance example_env None example_settings
                        (ast_callback_map example_facade) 0))
   \<and> map_option (UserEntries \<circ> HeaderSearchOpts)
        (snd (createClangCompilerInstance example_env None example_settings
                (ast_callback_map example_facade) 0)) =
      Some [HeaderSearchEntry ''/opt/profile/usr/include'' System False False,
            HeaderSearchEntry ''/opt/profile/usr/local/include'' ExternCSystem False False,
            HeaderSearchEntry ''/work/include'' System False False,
            HeaderSearchEntry ''/work/third_party'' System False False]
   \<and> succeeded (fst (createClangCompilerInstance (example_env\<lparr>absolute := \<lambda>path. None\<rparr>) None
                        (example_settings\<lparr>additional_include_folders := [''a'', ''b'']\<rparr>)
                        (ast_callback_map example_facade) 0))"
proof -
  have d: "compiler_settings example_facade = example_settings"
          "callback_parameter example_facade = 0"
    by (simp_all add: example_facade_def registerASTCallback_def CompilerInstance_def)
  obtain c where c: "createClangCompilerInstance example_env None example_settings
             (ast_callback_map example_facade) 0 =
           (\<lparr>succeeded = True, code = Ok, message = []\<rparr>, Some c)"
    using example_create unfolding d by blast
  have p: "UserEntries (configure_header_search example_env
              (example_settings\<lparr>additional_include_folders := []\<rparr>)
              (new_HeaderSearchOpts example_env)) =
           [HeaderSearchEntry ''/opt/profile/usr/include'' System False False,
            HeaderSearchEntry ''/opt/profile/usr/local/include'' ExternCSystem False False]"
    by (simp add: configure_header_search_def example_settings_def example_profile_def
          example_env_def AddPath_def Let_def)
  have f: "List.map_filter (absolute example_env) (additional_include_folders example_settings)
           = [''/work/include'', ''/work/third_party'']"
    by (simp add: example_env_def example_settings_def List.map_filter_simps)
  note inst = C8_additional_include_folders [of "\<lambda>path. None" example_env None "[''a'', ''b'']"
            example_settings "ast_callback_map example_facade" 0
            "\<lparr>succeeded = True, code = Ok, message = []\<rparr>" c]
  have 1: "additional_include_folders example_settings = [''include'', [], ''third_party'']"
    by (simp add: example_settings_def)
  have 2: "absolute example_env [] = None"
    by (simp add: example_env_def)
  have 3: "succeeded (fst (createClangCompilerInstance example_env None example_settings
                        (ast_callback_map example_facade) 0))"
    by (simp add: c)
  have 4: "map_option (UserEntries \<circ> HeaderSearchOpts)
        (snd (createClangCompilerInstance example_env None example_settings
                (ast_callback_map example_facade) 0)) =
      Some [HeaderSearchEntry ''/opt/profile/usr/include'' System False False,
            HeaderSearchEntry ''/opt/profile/usr/local/include'' ExternCSystem False False,
            HeaderSearchEntry ''/work/include'' System False False,
            HeaderSearchEntry ''/work/third_party'' System False False]"
    using inst [THEN conjunct2] by (simp add: c p f)
  have 5: "succeeded (fst (createClangCompilerInstance (example_env\<lparr>absolute := \<lambda>path. None\<rparr>) None
                        (example_settings\<lparr>additional_include_folders := [''a'', ''b'']\<rparr>)
                        (ast_callback_map example_facade) 0))"
    using inst [THEN conjunct1] 3 by simp
  show ?thesis
    by (intro conjI 1 2 3 4 5)
qed

text \<open>
  C6. The property: when construction succeeds, the session's language options have C++
  mode, RTTI and C++ exceptions on for C++ and off for C, GNU keywords and the bool type
  on, and GNU mode on exactly when \<^verbatim>\<open>enable_gnu_extensions\<close> is set. The source
  writes exactly these values (lines 191--248), and then passes the same options object to
  \<^verbatim>\<open>setLangDefaults\<close> (line 251), which sets GNU mode, GNU keywords and the bool type
  from the language standard. So the property fails for the session: for C99 with GNU
  extensions requested, on the example host, the values written are on and the values the
  session holds are off.
\<close>

theorem C6_gnu_options_overwritten:
  "language example_settings = C
   \<and> language_standard example_settings = 99
   \<and> enable_gnu_extensions example_settings
   \<and> configure_language_options example_settings (new_LangOpts example_env) =
       Inr (\<lparr>CPlusPlus = False, RTTI = False, CXXExceptions = False, GNUMode = True,
             GNUKeywords = True, Bool = True\<rparr>, InputKindC, lang_c99)
   \<and> succeeded (fst (createClangCompilerInstance example_env None example_settings
                        (ast_callback_map example_facade) 0))
   \<and> map_option LangOpts
        (snd (createClangCompilerInstance example_env None example_settings
                (ast_callback_map example_facade) 0)) =
       Some \<lparr>CPlusPlus = False, RTTI = False, CXXExceptions = False, GNUMode = False,
             GNUKeywords = False, Bool = False\<rparr>"
proof -
  have d: "compiler_settings example_facade = example_settings"
          "callback_parameter example_facade = 0"
    by (simp_all add: example_facade_def registerASTCallback_def CompilerInstance_def)
  have w: "configure_language_options example_settings (new_LangOpts example_env) =
       Inr (\<lparr>CPlusPlus = False, RTTI = False, CXXExceptions = False, GNUMode = True,
             GNUKeywords = True, Bool = True\<rparr>, InputKindC, lang_c99)"
    by (simp add: configure_language_options_def example_settings_def example_env_def Let_def)
  show ?thesis
    by (simp add: example_create [unfolded d] w) (simp add: example_settings_def)
qed

section \<open>Processing a buffer\<close>

text \<open>
  C5. When session construction fails, \<^verbatim>\<open>processBuffer\<close> returns the status of the
  construction, which has an empty message and one of the three construction codes, and
  leaves the facade and the user's state as they were: no callback has run. The parse
  engine is not consulted: the result is the same for every engine, also one that would
  never return.
\<close>

theorem C5_failed_construction:
  assumes "st = fst (createClangCompilerInstance env None (compiler_settings d)
                      (ast_callback_map d) (callback_parameter d))"
      and "\<not> succeeded st"
  shows "processBuffer (env\<lparr>ParseAST_engine := engine\<rparr>) d buffer w = Some (st, d, w)
       \<and> message st = []
       \<and> (code st = MemoryAllocationFailure \<or> code st = InvalidLanguage
            \<or> code st = InvalidLanguageStandard)"
proof -
  have "processBuffer (env\<lparr>ParseAST_engine := engine\<rparr>) d buffer w = Some (st, d, w)"
    using assms by (cases "createClangCompilerInstance env None (compiler_settings d)
                      (ast_callback_map d) (callback_parameter d)")
       (simp add: processBuffer_def create_engine)
  moreover have "message st = [] \<and> (code st = MemoryAllocationFailure \<or> code st = InvalidLanguage
            \<or> code st = InvalidLanguageStandard)"
    using assms(2) unfolding assms(1) create_status_cases
    by (auto simp: Status1_def Status2_def Status3_def split: if_splits)
  ultimately show ?thesis by simp
qed

theorem C5_failed_construction_witness:
  "processBuffer example_env (example_facade\<lparr>compiler_settings := example_settings\<lparr>language_standard := 17\<rparr>\<rparr>)
      ''int f(void);'' []
     = Some (\<lparr>succeeded = False, code = InvalidLanguageStandard, message = []\<rparr>,
             example_facade\<lparr>compiler_settings := example_settings\<lparr>language_standard := 17\<rparr>\<rparr>, [])
   \<and> map_option (snd \<circ> snd) (processBuffer example_env example_facade ''int f(void);'' []) = Some [1]"
proof -
  let ?d = "example_facade\<lparr>compiler_settings := example_settings\<lparr>language_standard := 17\<rparr>\<rparr>"
  have st: "fst (createClangCompilerInstance example_env None (compiler_settings ?d)
                      (ast_callback_map ?d) (callback_parameter ?d))
            = \<lparr>succeeded = False, code = InvalidLanguageStandard, message = []\<rparr>"
    by (simp add: create_status_cases example_env_def example_settings_def example_facade_def
          registerASTCallback_def CompilerInstance_def spec_standard_table_def
          Status2_def Status3_def)
  have e: "example_env\<lparr>ParseAST_engine := example_engine\<rparr> = example_env"
    by (simp add: example_env_def)
  have "processBuffer example_env ?d ''int f(void);'' [] =
          Some (\<lparr>succeeded = False, code = InvalidLanguageStandard, message = []\<rparr>, ?d, [])"
    using C5_failed_construction [OF st [symmetric], of example_engine "''int f(void);''" "[]"]
    by (simp add: e)
  moreover have "map_option (snd \<circ> snd) (processBuffer example_env example_facade ''int f(void);'' [])
          = Some [1]"
    by (simp add: example_processBuffer)
  ultimately show ?thesis by simp
qed

text \<open>
  C2. When the session is built and the parse engine returns on the buffer,
  \<^verbatim>\<open>processBuffer\<close> returns, and its status is: unsuccessful with
  \<open>CompilationError\<close> and the captured diagnostic text when the error count is not zero;
  otherwise successful with \<open>CompilationWarning\<close> and the captured text when the warning
  count is not zero; otherwise successful with \<open>Ok\<close> and an empty message.
\<close>

theorem C2_status_from_diagnostics:
  assumes "createClangCompilerInstance env None (compiler_settings d) (ast_callback_map d)
             (callback_parameter d) = (st, Some c)"
      and "ParseAST_engine env (register_main_buffer c buffer) = Some r"
  shows "map_option fst (processBuffer env d buffer w) =
           Some (if NumErrors r \<noteq> 0
                 then \<lparr>succeeded = False, code = CompilationError, message = diagnostic_output r\<rparr>
                 else if NumWarnings r \<noteq> 0
                 then \<lparr>succeeded = True, code = CompilationWarning, message = diagnostic_output r\<rparr>
                 else \<lparr>succeeded = True, code = Ok, message = []\<rparr>)"
proof -
  have "succeeded st"
    using create_handle [of env None "compiler_settings d" "ast_callback_map d" "callback_parameter d"]
          assms(1) by simp
  then show ?thesis
    using assms
    by (simp add: processBuffer_def Let_def Status1_def Status2_def Status3_def split: prod.split)
qed

theorem C2_status_from_diagnostics_witness:
  "map_option fst (processBuffer example_env example_facade ''int f('' []) =
     Some \<lparr>succeeded = False, code = CompilationError,
           message = ''main.cpp:1:7: error: expected parameter declarator''\<rparr>
   \<and> map_option fst (processBuffer example_env example_facade ''#warning w'' []) =
     Some \<lparr>succeeded = True, code = CompilationWarning, message = ''main.cpp:1:2: warning: w''\<rparr>
   \<and> map_option fst (processBuffer example_env example_facade ''int f(void);'' []) =
     Some \<lparr>succeeded = True, code = Ok, message = []\<rparr>"
proof -
  have e: "ParseAST_engine example_env = example_engine"
    by (simp add: example_env_def)
  note c = example_create
  have "map_option fst (processBuffer example_env example_facade ''int f('' []) =
     Some \<lparr>succeeded = False, code = CompilationError,
           message = ''main.cpp:1:7: error: expected parameter declarator''\<rparr>"
    using C2_status_from_diagnostics [OF c, of "''int f(''" _ "[]"]
    by (simp add: e example_engine_results)
  moreover have "map_option fst (processBuffer example_env example_facade ''#warning w'' []) =
     Some \<lparr>succeeded = True, code = CompilationWarning, message = ''main.cpp:1:2: warning: w''\<rparr>"
    using C2_status_from_diagnostics [OF c, of "''#warning w''" _ "[]"]
    by (simp add: e example_engine_results)
  moreover have "map_option fst (processBuffer example_env example_facade ''int f(void);'' []) =
     Some \<lparr>succeeded = True, code = Ok, message = []\<rparr>"
    using C2_status_from_diagnostics [OF c, of "''int f(void);''" _ "[]"]
    by (simp add: e example_engine_results)
  ultimately show ?thesis by simp
qed

text \<open>
  C9. When \<^verbatim>\<open>processBuffer\<close> returns, the facade's data is what it was before the
  call: the settings, the callback table and the callback parameter are unchanged, and the
  facade's data consists of these three fields only.
\<close>

theorem C9_facade_state_unchanged:
  assumes "processBuffer env d buffer w = Some (st, d', w')"
  shows "d' = d
       \<and> compiler_settings d' = compiler_settings d
       \<and> ast_callback_map d' = ast_callback_map d
       \<and> callback_parameter d' = callback_parameter d
       \<and> d' = \<lparr>compiler_settings = compiler_settings d, ast_callback_map = ast_callback_map d,
                callback_parameter = callback_parameter d\<rparr>"
proof -
  have tbl: "t = ast_callback_map d"
    if "HandleTranslationUnit co sm ctx (ast_callback_map d, w) = (t, u)" for co sm ctx t u
    using that Traverse_table(1) [of _ _ "(ast_callback_map d, w)"]
    by (auto simp: HandleTranslationUnit_def Let_def dest: arg_cong[where f=fst])
  have "d' = d"
    using assms
    by (auto simp: processBuffer_def Let_def split: prod.splits if_splits option.splits
             dest!: tbl)
  then show ?thesis by simp
qed

theorem C9_facade_state_unchanged_witness:
  "processBuffer example_env example_facade ''int f(void);'' [] =
     Some (\<lparr>succeeded = True, code = Ok, message = []\<rparr>, example_facade, [1])
   \<and> ast_callback_map example_facade Function = Some log_and_continue
   \<and> compiler_settings example_facade = example_settings
   \<and> callback_parameter example_facade = 0"
  using C9_facade_state_unchanged [OF example_processBuffer]
  by (simp add: example_processBuffer)
     (simp add: example_facade_def registerASTCallback_def CompilerInstance_def)

end
